theory Spec2Isabelle
  imports Complex_Main
begin

section \<open>Molar Analyzer: the apply callback and the plane construction\<close>

text \<open>
  The module is a widget of a 3D medical-imaging host. Its logic is the method
  \<open>onApplyButton\<close> (validation, reading two landmark points, installing two reference
  planes, the z-distance and its risk tier) and the method \<open>createPlane\<close>.
  Coordinates are the host's floating-point numbers; they are taken here as reals, so a
  statement below is about the exact arithmetic of the formulas in the code.
\<close>

subsection \<open>Three-component coordinates\<close>

type_synonym vec3 = "real \<times> real \<times> real"

fun idx0 :: "vec3 \<Rightarrow> real" where "idx0 (a, b, c) = a"
fun idx1 :: "vec3 \<Rightarrow> real" where "idx1 (a, b, c) = b"
fun idx2 :: "vec3 \<Rightarrow> real" where "idx2 (a, b, c) = c"

definition vadd :: "vec3 \<Rightarrow> vec3 \<Rightarrow> vec3" where
  "vadd u v = (idx0 u + idx0 v, idx1 u + idx1 v, idx2 u + idx2 v)"

definition vsub :: "vec3 \<Rightarrow> vec3 \<Rightarrow> vec3" where
  "vsub u v = (idx0 u - idx0 v, idx1 u - idx1 v, idx2 u - idx2 v)"

definition smul :: "real \<Rightarrow> vec3 \<Rightarrow> vec3" where
  "smul k v = (k * idx0 v, k * idx1 v, k * idx2 v)"

definition Dot :: "vec3 \<Rightarrow> vec3 \<Rightarrow> real" where
  "Dot u v = idx0 u * idx0 v + idx1 u * idx1 v + idx2 u * idx2 v"

definition Cross :: "vec3 \<Rightarrow> vec3 \<Rightarrow> vec3" where
  "Cross u v =
     (idx1 u * idx2 v - idx2 u * idx1 v,
      idx2 u * idx0 v - idx0 u * idx2 v,
      idx0 u * idx1 v - idx1 u * idx0 v)"

subsection \<open>Host interface: the plane source of the visualization library\<close>

text \<open>
  \<open>createPlane\<close> drives a \<open>vtkPlaneSource\<close>. The library is not part of the
  repository; the record and the setters below follow the library's documented
  behaviour for each call that \<open>createPlane\<close> makes. A plane source is defined by an
  origin and two points spanning its axes; center and normal are derived from them.
  Its output holds the grid points and the quadrilaterals over them (the per-point
  normals and texture coordinates of the library's output are left out).

  The library keeps the normal at length one. That needs a square root, so the model
  keeps a vector along the normal instead and compares directions.
\<close>

record vtkPolyData =
  Points :: "vec3 list"
  Polys :: "nat list list"

record vtkPlaneSource =
  XResolution :: nat
  YResolution :: nat
  Origin :: vec3
  Point1 :: vec3
  Point2 :: vec3
  Normal :: vec3
  Center :: vec3
  Output :: vtkPolyData

definition empty_polydata :: vtkPolyData where
  "empty_polydata = \<lparr>Points = [], Polys = []\<rparr>"

text \<open>A new plane source is the unit square in the x-y plane around the origin.\<close>

definition new_vtkPlaneSource :: vtkPlaneSource where
  "new_vtkPlaneSource =
     \<lparr>XResolution = 1, YResolution = 1,
      Origin = (-0.5, -0.5, 0), Point1 = (0.5, -0.5, 0), Point2 = (-0.5, 0.5, 0),
      Normal = (0, 0, 1), Center = (0, 0, 0), Output = empty_polydata\<rparr>"

text \<open>
  \<open>UpdatePlane\<close> recomputes center and normal from the two axes; it reports failure
  when the axes do not span a plane.
\<close>

definition UpdatePlane :: "vec3 \<Rightarrow> vec3 \<Rightarrow> vtkPlaneSource \<Rightarrow> bool \<times> vtkPlaneSource" where
  "UpdatePlane v1 v2 ps =
     (let n = Cross v1 v2
      in (n \<noteq> (0, 0, 0),
          ps\<lparr>Center := vadd (Origin ps) (smul 0.5 (vadd v1 v2)), Normal := n\<rparr>))"

text \<open>\<open>SetCenter\<close> translates the plane: the axes are kept, the three points move.\<close>

definition SetCenter :: "vec3 \<Rightarrow> vtkPlaneSource \<Rightarrow> vtkPlaneSource" where
  "SetCenter c ps =
     (if Center ps = c then ps
      else let v1 = vsub (Point1 ps) (Origin ps);
               v2 = vsub (Point2 ps) (Origin ps);
               origin = vsub c (smul 0.5 (vadd v1 v2))
           in ps\<lparr>Center := c, Origin := origin,
                 Point1 := vadd origin v1, Point2 := vadd origin v2\<rparr>)"

text \<open>
  \<open>SetNormal\<close> rotates the plane about its center until its normal points along the
  given direction. Nothing moves when it already does. For the opposite direction the
  library makes a half turn about the first axis. In every other case it turns about
  the cross product of the two normals; that rotation \<open>turn a b\<close> (taking direction
  \<open>a\<close> to direction \<open>b\<close>) is a parameter of the model, since its matrix has
  irrational entries in general.
\<close>

type_synonym rotation = "vec3 \<Rightarrow> vec3 \<Rightarrow> vec3 \<Rightarrow> vec3"

definition same_direction :: "vec3 \<Rightarrow> vec3 \<Rightarrow> bool" where
  "same_direction a b = (Cross a b = (0, 0, 0) \<and> Dot a b > 0)"

definition opposite_direction :: "vec3 \<Rightarrow> vec3 \<Rightarrow> bool" where
  "opposite_direction a b = (Cross a b = (0, 0, 0) \<and> Dot a b < 0)"

definition half_turn :: "vec3 \<Rightarrow> vec3 \<Rightarrow> vec3" where
  "half_turn axis v =
     (if axis = (0, 0, 0) then v
      else vsub (smul (2 * Dot axis v / Dot axis axis) axis) v)"

definition SetNormal :: "rotation \<Rightarrow> vec3 \<Rightarrow> vtkPlaneSource \<Rightarrow> vtkPlaneSource" where
  "SetNormal turn N ps =
     (if N = (0, 0, 0) then ps
      else if same_direction (Normal ps) N then ps
      else let rot = (if opposite_direction (Normal ps) N
                      then half_turn (vsub (Point1 ps) (Origin ps))
                      else turn (Normal ps) N);
               about = (\<lambda>p. vadd (Center ps) (rot (vsub p (Center ps))))
           in ps\<lparr>Origin := about (Origin ps), Point1 := about (Point1 ps),
                 Point2 := about (Point2 ps), Normal := N\<rparr>)"

definition SetXResolution :: "nat \<Rightarrow> vtkPlaneSource \<Rightarrow> vtkPlaneSource" where
  "SetXResolution r ps = ps\<lparr>XResolution := r\<rparr>"

definition SetYResolution :: "nat \<Rightarrow> vtkPlaneSource \<Rightarrow> vtkPlaneSource" where
  "SetYResolution r ps = ps\<lparr>YResolution := r\<rparr>"

text \<open>\<open>SetOrigin\<close> stores the origin; \<open>SetPoint1\<close> and \<open>SetPoint2\<close> also update the plane.\<close>

definition SetOrigin :: "vec3 \<Rightarrow> vtkPlaneSource \<Rightarrow> vtkPlaneSource" where
  "SetOrigin p ps = ps\<lparr>Origin := p\<rparr>"

definition SetPoint1 :: "vec3 \<Rightarrow> vtkPlaneSource \<Rightarrow> vtkPlaneSource" where
  "SetPoint1 p ps =
     (if Point1 ps = p then ps
      else snd (UpdatePlane (vsub p (Origin ps)) (vsub (Point2 ps) (Origin ps))
                  (ps\<lparr>Point1 := p\<rparr>)))"

definition SetPoint2 :: "vec3 \<Rightarrow> vtkPlaneSource \<Rightarrow> vtkPlaneSource" where
  "SetPoint2 p ps =
     (if Point2 ps = p then ps
      else snd (UpdatePlane (vsub (Point1 ps) (Origin ps)) (vsub p (Origin ps))
                  (ps\<lparr>Point2 := p\<rparr>)))"

text \<open>
  \<open>Update\<close> generates the output: the grid points row by row
  (\<open>Origin + tc0 * v1 + tc1 * v2\<close>) and one quadrilateral for each grid cell.
  Nothing is generated when the axes span no plane.
\<close>

definition grid_points :: "vtkPlaneSource \<Rightarrow> vec3 \<Rightarrow> vec3 \<Rightarrow> vec3 list" where
  "grid_points ps v1 v2 =
     concat (map (\<lambda>i. map (\<lambda>j.
        vadd (Origin ps)
          (vadd (smul (real j / real (XResolution ps)) v1)
                (smul (real i / real (YResolution ps)) v2)))
        [0 ..< Suc (XResolution ps)]) [0 ..< Suc (YResolution ps)])"

definition grid_polys :: "vtkPlaneSource \<Rightarrow> nat list list" where
  "grid_polys ps =
     concat (map (\<lambda>i. map (\<lambda>j.
        (let p0 = j + i * (XResolution ps + 1)
         in [p0, p0 + 1, p0 + XResolution ps + 2, p0 + XResolution ps + 1]))
        [0 ..< XResolution ps]) [0 ..< YResolution ps])"

definition Update :: "vtkPlaneSource \<Rightarrow> vtkPlaneSource" where
  "Update ps =
     (let v1 = vsub (Point1 ps) (Origin ps);
          v2 = vsub (Point2 ps) (Origin ps);
          (ok, ps') = UpdatePlane v1 v2 ps
      in if \<not> ok then ps'
         else ps'\<lparr>Output := \<lparr>Points = grid_points ps' v1 v2, Polys = grid_polys ps'\<rparr>\<rparr>)"

definition GetOutput :: "vtkPlaneSource \<Rightarrow> vtkPolyData" where
  "GetOutput ps = Output ps"

subsection \<open>The geometry that \<open>createPlane\<close> builds\<close>

text \<open>
  The first half of \<open>createPlane\<close> (up to \<^verbatim>\<open>planeSource.Update()\<close>), call by call.
\<close>

definition planeSource :: "rotation \<Rightarrow> vec3 \<Rightarrow> vtkPlaneSource" where
  "planeSource turn center =
     (let size = 60
      in Update
          (SetPoint2 (idx0 center - size, idx1 center + size, idx2 center)
          (SetPoint1 (idx0 center + size, idx1 center - size, idx2 center)
          (SetOrigin (idx0 center - size, idx1 center - size, idx2 center)
          (SetYResolution 1
          (SetXResolution 1
          (SetNormal turn (0, 0, 1)
          (SetCenter (idx0 center, idx1 center, idx2 center)
           new_vtkPlaneSource))))))))"

subsection \<open>Host interface: the scene and its nodes\<close>

text \<open>
  The scene is the host's ordered collection of named nodes. Only a model node takes
  surface geometry; a node of any other class (a point list, a segmentation, a volume)
  has a name but no \<open>SetAndObservePolyData\<close>, so Python raises \<open>AttributeError\<close> when
  the method is called on it, as it does for a method called on \<open>None\<close>.
  A model node refers to at most one display node, kept here inside the node.
\<close>

datatype py_error = AttributeError

record vtkMRMLModelDisplayNode =
  Color :: vec3
  Opacity :: real
  SliceIntersectionVisibility :: bool
  LineWidth :: real

datatype vtkMRMLNode =
    ModelNode string "vtkPolyData option" "vtkMRMLModelDisplayNode option"
  | OtherNode string

fun GetName :: "vtkMRMLNode \<Rightarrow> string" where
  "GetName (ModelNode n pd d) = n"
| "GetName (OtherNode n) = n"

text \<open>A node reference is the node's position in the scene.\<close>

fun GetFirstNodeByName :: "vtkMRMLNode list \<Rightarrow> string \<Rightarrow> nat option" where
  "GetFirstNodeByName [] name = None"
| "GetFirstNodeByName (n # ns) name =
     (if GetName n = name then Some 0 else map_option Suc (GetFirstNodeByName ns name))"

text \<open>
  \<open>AddNewNodeByClass\<close> appends a node of the class and returns its reference. The
  host derives the node's name from the given one so that it is unique in the scene;
  \<open>createPlane\<close> adds a node only when no node has the name, where that is the name itself.
\<close>

definition AddNewNodeByClass ::
  "string \<Rightarrow> string \<Rightarrow> vtkMRMLNode list \<Rightarrow> nat \<times> vtkMRMLNode list" where
  "AddNewNodeByClass className name scene =
     (length scene,
      scene @ [if className = ''vtkMRMLModelNode'' then ModelNode name None None
               else OtherNode name])"

definition default_display :: vtkMRMLModelDisplayNode where
  "default_display =
     \<lparr>Color = (0.5, 0.5, 0.5), Opacity = 1, SliceIntersectionVisibility = False, LineWidth = 1\<rparr>"

fun CreateDefaultDisplayNodes :: "vtkMRMLNode \<Rightarrow> vtkMRMLNode" where
  "CreateDefaultDisplayNodes (ModelNode n pd None) = ModelNode n pd (Some default_display)"
| "CreateDefaultDisplayNodes node = node"

fun SetAndObservePolyData :: "vtkPolyData \<Rightarrow> vtkMRMLNode \<Rightarrow> py_error + vtkMRMLNode" where
  "SetAndObservePolyData poly (ModelNode n pd d) = Inr (ModelNode n (Some poly) d)"
| "SetAndObservePolyData poly (OtherNode n) = Inl AttributeError"

fun GetDisplayNode :: "vtkMRMLNode \<Rightarrow> vtkMRMLModelDisplayNode option" where
  "GetDisplayNode (ModelNode n pd d) = d"
| "GetDisplayNode (OtherNode n) = None"

fun with_display :: "vtkMRMLModelDisplayNode \<Rightarrow> vtkMRMLNode \<Rightarrow> vtkMRMLNode" where
  "with_display d' (ModelNode n pd d) = ModelNode n pd (Some d')"
| "with_display d' (OtherNode n) = OtherNode n"


subsection \<open>The widget\<close>

text \<open>
  The widget's selectors hold the chosen nodes or nothing; a landmark node is a point
  list. The label's text is either a fixed message or the report of a run (the
  formatted depth and the risk class), kept unformatted. \<open>steps\<close> is not a field of the
  source: it logs the steps of a run in the order the code performs them, so that a
  statement about this order can be made.
\<close>

record vtkMRMLMarkupsFiducialNode =
  ControlPoints :: "vec3 list"

datatype vtkMRMLSegmentationNode = SegmentationNode string

datatype label_text = Text string | SurgicalDepth real string

datatype event =
    PositionRead vec3
  | PlaneInstalled string
  | DifferenceComputed real
  | RiskClassified string

record widget =
  segmentationSelector :: "vtkMRMLSegmentationNode option"
  boneSelector :: "vtkMRMLMarkupsFiducialNode option"
  nerveSelector :: "vtkMRMLMarkupsFiducialNode option"
  resultsLabel_text :: label_text
  resultsLabel_styleSheet :: string
  mrmlScene :: "vtkMRMLNode list"
  steps :: "event list"

definition GetNumberOfControlPoints :: "vtkMRMLMarkupsFiducialNode \<Rightarrow> nat" where
  "GetNumberOfControlPoints node = length (ControlPoints node)"

text \<open>The host writes the position into the caller's list, or leaves it when there is no such point.\<close>

definition GetNthControlPointPosition :: "vtkMRMLMarkupsFiducialNode \<Rightarrow> nat \<Rightarrow> vec3 \<Rightarrow> vec3" where
  "GetNthControlPointPosition node n pos =
     (if n < length (ControlPoints node) then ControlPoints node ! n else pos)"

subsection \<open>\<open>createPlane\<close>\<close>

text \<open>
  The result is the exception that left the method, if any, and the widget as the
  method left it: an exception does not undo what was done before it.
\<close>

definition createPlane ::
  "rotation \<Rightarrow> string \<Rightarrow> vec3 \<Rightarrow> vec3 \<Rightarrow> widget \<Rightarrow> py_error option \<times> widget" where
  "createPlane turn name center color w =
     (let source = planeSource turn center;
          (modelNode, scene) =
            (case GetFirstNodeByName (mrmlScene w) name of
               Some i \<Rightarrow> (i, mrmlScene w)
             | None \<Rightarrow>
                 (let (i, scene') = AddNewNodeByClass ''vtkMRMLModelNode'' name (mrmlScene w)
                  in (i, scene'[i := CreateDefaultDisplayNodes (scene' ! i)])))
      in case SetAndObservePolyData (GetOutput source) (scene ! modelNode) of
           Inl err \<Rightarrow> (Some err, w\<lparr>mrmlScene := scene\<rparr>)
         | Inr node \<Rightarrow>
             (let w1 = w\<lparr>mrmlScene := scene[modelNode := node],
                          steps := steps w @ [PlaneInstalled name]\<rparr>
              in case GetDisplayNode node of
                   None \<Rightarrow> (Some AttributeError, w1)
                 | Some displayNode \<Rightarrow>
                     (None,
                      w1\<lparr>mrmlScene := scene[modelNode :=
                            with_display
                              (displayNode\<lparr>Color := color, Opacity := 0.3,
                                 SliceIntersectionVisibility := True, LineWidth := 3\<rparr>)
                              node]\<rparr>)))"

subsection \<open>The calculation and the classification (step 4 of the callback)\<close>

text \<open>\<^verbatim>\<open>diff = abs(pos_bone[2] - pos_nerve[2])\<close>\<close>

definition diff :: "vec3 \<Rightarrow> vec3 \<Rightarrow> real" where
  "diff pos_bone pos_nerve = \<bar>idx2 pos_bone - idx2 pos_nerve\<bar>"

text \<open>
  The \<^verbatim>\<open>if diff < 2.0 / elif diff < 5.0 / else\<close> chain; the result is the pair
  \<open>(risk_class, color)\<close> that the chain assigns.
\<close>

definition classify :: "real \<Rightarrow> string \<times> string" where
  "classify d =
     (if d < 2 then (''HIGH COMPLEXITY (Red)'', ''#ffcccc'')
      else if d < 5 then (''MODERATE COMPLEXITY (Amber)'', ''#fff4cc'')
      else (''LOW COMPLEXITY (White)'', ''#ccffcc''))"

definition risk_class :: "real \<Rightarrow> string" where
  "risk_class d = fst (classify d)"

subsection \<open>\<open>onApplyButton\<close>\<close>

definition onApplyButton :: "rotation \<Rightarrow> widget \<Rightarrow> py_error option \<times> widget" where
  "onApplyButton turn w =
     (case (segmentationSelector w, boneSelector w, nerveSelector w) of
        (Some segNode, Some boneNode, Some nerveNode) \<Rightarrow>
          if GetNumberOfControlPoints boneNode < 1 \<or> GetNumberOfControlPoints nerveNode < 1
          then (None, w\<lparr>resultsLabel_text := Text ''Error: Place points on the image first!''\<rparr>)
          else
            (let pos_bone = GetNthControlPointPosition boneNode 0 (0, 0, 0);
                 pos_nerve = GetNthControlPointPosition nerveNode 0 (0, 0, 0);
                 w1 = w\<lparr>steps := steps w @ [PositionRead pos_bone, PositionRead pos_nerve]\<rparr>
             in case createPlane turn ''Amber_Line_Plane'' pos_bone (1, 0.6, 0) w1 of
                  (Some err, w2) \<Rightarrow> (Some err, w2)
                | (None, w2) \<Rightarrow>
                    (case createPlane turn ''Red_Line_Plane'' pos_nerve (1, 0, 0) w2 of
                       (Some err, w3) \<Rightarrow> (Some err, w3)
                     | (None, w3) \<Rightarrow>
                         (let d = diff pos_bone pos_nerve;
                              (rc, color) = classify d
                          in (None,
                              w3\<lparr>resultsLabel_text := SurgicalDepth d rc,
                                 resultsLabel_styleSheet :=
                                   ''background-color: '' @ color @
                                   ''; font-weight: bold; padding: 10px; border: 2px solid black;'',
                                 steps := steps w3 @ [DifferenceComputed d, RiskClassified rc]\<rparr>))))
      | _ \<Rightarrow>
          (None,
           w\<lparr>resultsLabel_text :=
                Text ''Error: Please select Segmentation, Bone Point, and Nerve Point!'',
              resultsLabel_styleSheet :=
                ''background-color: #ffcccc; color: red; font-weight: bold;''\<rparr>))"

section \<open>Notions used to state the properties\<close>

text \<open>The square of side 120 around a point, at the point's height, as one quadrilateral.\<close>

definition rectangle :: "vec3 \<Rightarrow> vtkPolyData" where
  "rectangle c =
     \<lparr>Points = [(idx0 c - 60, idx1 c - 60, idx2 c), (idx0 c + 60, idx1 c - 60, idx2 c),
                (idx0 c - 60, idx1 c + 60, idx2 c), (idx0 c + 60, idx1 c + 60, idx2 c)],
      Polys = [[0, 1, 3, 2]]\<rparr>"

text \<open>The node that a lookup by name returns, and the points of its geometry.\<close>

definition GetFirstNode :: "vtkMRMLNode list \<Rightarrow> string \<Rightarrow> vtkMRMLNode option" where
  "GetFirstNode scene name = map_option (\<lambda>i. scene ! i) (GetFirstNodeByName scene name)"



text \<open>
  The exception with which \<open>createPlane\<close> leaves for a name: none when no node has the
  name or the first such node is a model node with a display node.
\<close>

definition plane_error :: "vtkMRMLNode list \<Rightarrow> string \<Rightarrow> py_error option" where
  "plane_error scene name =
     (case GetFirstNode scene name of
        None \<Rightarrow> None
      | Some node \<Rightarrow>
          (case GetDisplayNode node of None \<Rightarrow> Some AttributeError | Some d \<Rightarrow> None))"

text \<open>Orders of steps: every step of one kind comes before the first step of another kind.\<close>

fun is_read :: "event \<Rightarrow> bool" where
  "is_read (PositionRead p) = True"
| "is_read e = False"

fun is_plane :: "event \<Rightarrow> bool" where
  "is_plane (PlaneInstalled n) = True"
| "is_plane e = False"

fun is_difference :: "event \<Rightarrow> bool" where
  "is_difference (DifferenceComputed d) = True"
| "is_difference e = False"

fun is_classified :: "event \<Rightarrow> bool" where
  "is_classified (RiskClassified r) = True"
| "is_classified e = False"

definition all_before :: "(event \<Rightarrow> bool) \<Rightarrow> (event \<Rightarrow> bool) \<Rightarrow> event list \<Rightarrow> bool" where
  "all_before P Q tr = (filter P (dropWhile (\<lambda>e. \<not> Q e) tr) = [] \<and> filter P tr \<noteq> [] \<and> filter Q tr \<noteq> [])"

text \<open>The order of the specification: read, difference, tier, planes.\<close>

definition spec_order :: "event list \<Rightarrow> bool" where
  "spec_order tr =
     (all_before is_read is_difference tr \<and> all_before is_difference is_classified tr \<and>
      all_before is_classified is_plane tr)"

text \<open>The order of the code: read, planes, difference, tier.\<close>

definition code_order :: "event list \<Rightarrow> bool" where
  "code_order tr =
     (all_before is_read is_plane tr \<and> all_before is_plane is_difference tr \<and>
      all_before is_difference is_classified tr)"

text \<open>A rotation for concrete runs (no run of \<open>createPlane\<close> rotates).\<close>

definition keep :: rotation where
  "keep a b v = v"

text \<open>
  A concrete run: a segmentation, a bone point at height 10 and a nerve point at height 7,
  no plane in the scene yet.
\<close>

definition example_widget :: widget where
  "example_widget =
     \<lparr>segmentationSelector = Some (SegmentationNode ''Segmentation''),
      boneSelector = Some \<lparr>ControlPoints = [(1, 2, 10)]\<rparr>,
      nerveSelector = Some \<lparr>ControlPoints = [(4, 5, 7), (0, 0, 0)]\<rparr>,
      resultsLabel_text = Text ''Ready for Analysis'',
      resultsLabel_styleSheet =
        ''border: 1px solid gray; padding: 10px; background-color: #f0f0f0;'',
      mrmlScene = [OtherNode ''Segmentation''],
      steps = []\<rparr>"

definition example_result :: widget where
  "example_result =
     example_widget
       \<lparr>resultsLabel_text := SurgicalDepth 3 ''MODERATE COMPLEXITY (Amber)'',
        resultsLabel_styleSheet :=
          ''background-color: #fff4cc; font-weight: bold; padding: 10px; border: 2px solid black;'',
        mrmlScene :=
          [OtherNode ''Segmentation'',
           ModelNode ''Amber_Line_Plane'' (Some (rectangle (1, 2, 10)))
             (Some \<lparr>Color = (1, 0.6, 0), Opacity = 0.3, SliceIntersectionVisibility = True,
                     LineWidth = 3\<rparr>),
           ModelNode ''Red_Line_Plane'' (Some (rectangle (4, 5, 7)))
             (Some \<lparr>Color = (1, 0, 0), Opacity = 0.3, SliceIntersectionVisibility = True,
                     LineWidth = 3\<rparr>)],
        steps :=
          [PositionRead (1, 2, 10), PositionRead (4, 5, 7),
           PlaneInstalled ''Amber_Line_Plane'', PlaneInstalled ''Red_Line_Plane'',
           DifferenceComputed 3, RiskClassified ''MODERATE COMPLEXITY (Amber)'']\<rparr>"


section \<open>Auxiliary facts\<close>

subsection \<open>The plane source, call by call\<close>

lemmas vec_defs = vadd_def vsub_def smul_def Dot_def Cross_def

lemma SetCenter_new: "SetCenter (a, b, c) new_vtkPlaneSource =
  \<lparr>XResolution = 1, YResolution = 1,
   Origin = (a - 1/2, b - 1/2, c), Point1 = (a + 1/2, b - 1/2, c), Point2 = (a - 1/2, b + 1/2, c),
   Normal = (0, 0, 1), Center = (a, b, c), Output = empty_polydata\<rparr>"
  by (simp add: SetCenter_def new_vtkPlaneSource_def vec_defs Let_def)

lemma SetNormal_up: "Normal ps = (0, 0, 1) \<Longrightarrow> SetNormal turn (0, 0, 1) ps = ps"
  by (simp add: SetNormal_def same_direction_def vec_defs)

lemma SetPoint1_step: "SetPoint1 (a + 60, b - 60, c) (SetOrigin (a - 60, b - 60, c) (SetYResolution 1 (SetXResolution 1 
  \<lparr>XResolution = 1, YResolution = 1,
      Origin = (a - 1/2, b - 1/2, c), Point1 = (a + 1/2, b - 1/2, c), Point2 = (a - 1/2, b + 1/2, c),
      Normal = (0, 0, 1), Center = (a, b, c), Output = empty_polydata\<rparr>))) = 
  \<lparr>XResolution = 1, YResolution = 1,
      Origin = (a - 60, b - 60, c), Point1 = (a + 60, b - 60, c), Point2 = (a - 1/2, b + 1/2, c),
      Normal = (0, 0, 7260), Center = (a + 119/4, b - 119/4, c), Output = empty_polydata\<rparr>"
  by (simp add: SetXResolution_def SetYResolution_def SetOrigin_def SetPoint1_def UpdatePlane_def vec_defs Let_def)

lemma Update_step: "Update (SetPoint2 (a - 60, b + 60, c)   \<lparr>XResolution = 1, YResolution = 1,
      Origin = (a - 60, b - 60, c), Point1 = (a + 60, b - 60, c), Point2 = (a - 1/2, b + 1/2, c),
      Normal = (0, 0, 7260), Center = (a + 119/4, b - 119/4, c), Output = empty_polydata\<rparr>) = 
   \<lparr>XResolution = 1, YResolution = 1,
      Origin = (a - 60, b - 60, c), Point1 = (a + 60, b - 60, c), Point2 = (a - 60, b + 60, c),
      Normal = (0, 0, 14400), Center = (a, b, c), 
      Output = \<lparr>Points = [(a - 60, b - 60, c), (a + 60, b - 60, c), (a - 60, b + 60, c), (a + 60, b + 60, c)],
                Polys = [[0, 1, 3, 2]]\<rparr>\<rparr>"
  by (simp add: SetPoint2_def Update_def UpdatePlane_def grid_points_def grid_polys_def vec_defs Let_def upt_rec)

lemma planeSource_eq: "planeSource turn center =
   \<lparr>XResolution = 1, YResolution = 1,
    Origin = (idx0 center - 60, idx1 center - 60, idx2 center),
    Point1 = (idx0 center + 60, idx1 center - 60, idx2 center),
    Point2 = (idx0 center - 60, idx1 center + 60, idx2 center),
    Normal = (0, 0, 14400), Center = center, Output = rectangle center\<rparr>"
proof -
  obtain a b c where c: "center = (a, b, c)" by (cases center)
  show ?thesis
    apply (simp only: planeSource_def Let_def c idx0.simps idx1.simps idx2.simps SetCenter_new)
    apply (subst SetNormal_up)
     apply simp
    apply (simp only: SetPoint1_step Update_step rectangle_def idx0.simps idx1.simps idx2.simps)
    done
qed

lemma GetOutput_planeSource: "GetOutput (planeSource turn center) = rectangle center"
  by (simp add: GetOutput_def planeSource_eq)

lemma first_node_Some: "GetFirstNodeByName scene name = Some i \<Longrightarrow>
   i < length scene \<and> GetName (scene ! i) = name \<and> (\<forall>j<i. GetName (scene ! j) \<noteq> name)"
proof (induction scene arbitrary: i)
  case Nil then show ?case by simp
next
  case (Cons n ns)
  show ?case
  proof (cases "GetName n = name")
    case True with Cons.prems show ?thesis by simp
  next
    case False
    with Cons.prems obtain k where k: "GetFirstNodeByName ns name = Some k" "i = Suc k" by auto
    from Cons.IH[OF k(1)] False k(2) show ?thesis by (auto simp: less_Suc_eq_0_disj)
  qed
qed


lemma first_node_update: "i < length scene \<Longrightarrow> GetName node = GetName (scene ! i) \<Longrightarrow>
   GetFirstNodeByName (scene[i := node]) name = GetFirstNodeByName scene name"
proof (induction scene arbitrary: i)
  case Nil then show ?case by simp
next
  case (Cons n ns) then show ?case by (cases i) auto
qed

lemma first_node_append: "GetFirstNodeByName (scene @ [node]) name =
   (case GetFirstNodeByName scene name of Some i \<Rightarrow> Some i
    | None \<Rightarrow> if GetName node = name then Some (length scene) else None)"
  by (induction scene) (auto split: option.splits)

lemma createPlane_new: 
  assumes "GetFirstNodeByName (mrmlScene w) name = None"
  shows "createPlane turn name center color w =
     (None, w\<lparr>mrmlScene := mrmlScene w @ [ModelNode name (Some (rectangle center))
               (Some \<lparr>Color = color, Opacity = 0.3, SliceIntersectionVisibility = True, LineWidth = 3\<rparr>)],
              steps := steps w @ [PlaneInstalled name]\<rparr>)"
  using assms by (simp add: createPlane_def GetOutput_planeSource AddNewNodeByClass_def default_display_def)

lemma createPlane_model:
  assumes "GetFirstNodeByName (mrmlScene w) name = Some i" "mrmlScene w ! i = ModelNode n pd (Some d)"
  shows "createPlane turn name center color w =
     (None, w\<lparr>mrmlScene := (mrmlScene w)[i := ModelNode n (Some (rectangle center))
               (Some (d\<lparr>Color := color, Opacity := 0.3, SliceIntersectionVisibility := True, LineWidth := 3\<rparr>))],
              steps := steps w @ [PlaneInstalled name]\<rparr>)"
  using assms by (simp add: createPlane_def GetOutput_planeSource)

lemma createPlane_no_display:
  assumes "GetFirstNodeByName (mrmlScene w) name = Some i" "mrmlScene w ! i = ModelNode n pd None"
  shows "createPlane turn name center color w =
     (Some AttributeError, w\<lparr>mrmlScene := (mrmlScene w)[i := ModelNode n (Some (rectangle center)) None],
              steps := steps w @ [PlaneInstalled name]\<rparr>)"
  using assms by (simp add: createPlane_def GetOutput_planeSource)

lemma createPlane_other:
  assumes "GetFirstNodeByName (mrmlScene w) name = Some i" "mrmlScene w ! i = OtherNode n"
  shows "createPlane turn name center color w = (Some AttributeError, w)"
  using assms by (simp add: createPlane_def GetOutput_planeSource)

subsection \<open>The cases of \<open>createPlane\<close>\<close>

lemma createPlane_cases [case_names new model no_display other]:
  obtains
    "GetFirstNodeByName (mrmlScene w) name = None"
  | i n pd d where "GetFirstNodeByName (mrmlScene w) name = Some i" "mrmlScene w ! i = ModelNode n pd (Some d)"
  | i n pd where "GetFirstNodeByName (mrmlScene w) name = Some i" "mrmlScene w ! i = ModelNode n pd None"
  | i n where "GetFirstNodeByName (mrmlScene w) name = Some i" "mrmlScene w ! i = OtherNode n"
proof (cases "GetFirstNodeByName (mrmlScene w) name")
  case None then show ?thesis using that(1) by simp
next
  case (Some i)
  show ?thesis
  proof (cases "mrmlScene w ! i")
    case (ModelNode n pd d)
    then show ?thesis using Some that(2,3) by (cases d) auto
  next
    case (OtherNode n) then show ?thesis using Some that(4) by simp
  qed
qed

lemma createPlane_error: "fst (createPlane turn name center color w) = plane_error (mrmlScene w) name"
proof (cases w name rule: createPlane_cases)
  case new then show ?thesis by (simp add: createPlane_new plane_error_def GetFirstNode_def)
next
  case (model i n pd d) then show ?thesis by (simp add: createPlane_model plane_error_def GetFirstNode_def)
next
  case (no_display i n pd) then show ?thesis by (simp add: createPlane_no_display plane_error_def GetFirstNode_def)
next
  case (other i n) then show ?thesis by (simp add: createPlane_other plane_error_def GetFirstNode_def)
qed

lemma createPlane_widget:
  "segmentationSelector (snd (createPlane turn name center color w)) = segmentationSelector w \<and>
   boneSelector (snd (createPlane turn name center color w)) = boneSelector w \<and>
   nerveSelector (snd (createPlane turn name center color w)) = nerveSelector w \<and>
   resultsLabel_text (snd (createPlane turn name center color w)) = resultsLabel_text w \<and>
   resultsLabel_styleSheet (snd (createPlane turn name center color w)) = resultsLabel_styleSheet w"
proof (cases w name rule: createPlane_cases)
  case new then show ?thesis by (simp add: createPlane_new)
next
  case (model i n pd d) then show ?thesis by (simp add: createPlane_model)
next
  case (no_display i n pd) then show ?thesis by (simp add: createPlane_no_display)
next
  case (other i n) then show ?thesis by (simp add: createPlane_other)
qed

lemma createPlane_steps:
  "createPlane turn name center color w = (None, w') \<Longrightarrow> steps w' = steps w @ [PlaneInstalled name]"
proof (cases w name rule: createPlane_cases)
  case new then show "createPlane turn name center color w = (None, w') \<Longrightarrow> ?thesis" by (auto simp add: createPlane_new)
next
  case (model i n pd d) then show "createPlane turn name center color w = (None, w') \<Longrightarrow> ?thesis" by (auto simp add: createPlane_model)
next
  case (no_display i n pd) then show "createPlane turn name center color w = (None, w') \<Longrightarrow> ?thesis" by (simp add: createPlane_no_display)
next
  case (other i n) then show "createPlane turn name center color w = (None, w') \<Longrightarrow> ?thesis" by (simp add: createPlane_other)
qed

lemma GetFirstNode_update:
  "GetFirstNodeByName scene name = Some i \<Longrightarrow> GetName node = name \<Longrightarrow>
   GetFirstNode (scene[i := node]) name' = (if name' = name then Some node else GetFirstNode scene name')"
proof -
  assume a: "GetFirstNodeByName scene name = Some i" and b: "GetName node = name"
  from first_node_Some[OF a] have i: "i < length scene" "GetName (scene ! i) = name" by auto
  have f: "GetFirstNodeByName (scene[i := node]) name' = GetFirstNodeByName scene name'"
    using first_node_update[of i scene node name'] i b by simp
  show ?thesis
  proof (cases "name' = name")
    case True then show ?thesis using f a i by (simp add: GetFirstNode_def)
  next
    case False
    show ?thesis
    proof (cases "GetFirstNodeByName scene name'")
      case None then show ?thesis using f False by (simp add: GetFirstNode_def)
    next
      case (Some j)
      from first_node_Some[OF Some] i False have "j \<noteq> i" by auto
      then show ?thesis using f False Some by (simp add: GetFirstNode_def)
    qed
  qed
qed

lemma GetFirstNode_append:
  "GetFirstNodeByName scene name = None \<Longrightarrow> GetName node = name \<Longrightarrow>
   GetFirstNode (scene @ [node]) name' = (if name' = name then Some node else GetFirstNode scene name')"
proof -
  assume a: "GetFirstNodeByName scene name = None" and b: "GetName node = name"
  show ?thesis
  proof (cases "GetFirstNodeByName scene name'")
    case None then show ?thesis using a b by (auto simp add: GetFirstNode_def first_node_append)
  next
    case (Some j)
    from first_node_Some[OF Some] have "j < length scene" by simp
    then show ?thesis using a b Some by (auto simp add: GetFirstNode_def first_node_append nth_append)
  qed
qed


lemma createPlane_frame:
  "name' \<noteq> name \<Longrightarrow>
   GetFirstNode (mrmlScene (snd (createPlane turn name center color w))) name' = GetFirstNode (mrmlScene w) name'"
proof (cases w name rule: createPlane_cases)
  case new 
  assume "name' \<noteq> name"
  with new show ?thesis by (simp add: createPlane_new GetFirstNode_append)
next
  case (model i n pd d)
  assume "name' \<noteq> name"
  moreover from first_node_Some[OF model(1)] model(2) have "n = name" by simp
  ultimately show ?thesis using model by (simp add: createPlane_model GetFirstNode_update)
next
  case (no_display i n pd)
  assume "name' \<noteq> name"
  moreover from first_node_Some[OF no_display(1)] no_display(2) have "n = name" by simp
  ultimately show ?thesis using no_display by (simp add: createPlane_no_display GetFirstNode_update)
next
  case (other i n) then show "name' \<noteq> name \<Longrightarrow> ?thesis" by (simp add: createPlane_other)
qed

subsection \<open>A run that passes the validation\<close>

lemma onApplyButton_valid:
  assumes "segmentationSelector w = Some segNode" "boneSelector w = Some boneNode"
    "nerveSelector w = Some nerveNode"
    "ControlPoints boneNode = bone # bs" "ControlPoints nerveNode = nerve # ns"
  shows "onApplyButton turn w =
     (case createPlane turn ''Amber_Line_Plane'' bone (1, 0.6, 0)
             (w\<lparr>steps := steps w @ [PositionRead bone, PositionRead nerve]\<rparr>) of
        (Some err, w2) \<Rightarrow> (Some err, w2)
      | (None, w2) \<Rightarrow>
          (case createPlane turn ''Red_Line_Plane'' nerve (1, 0, 0) w2 of
             (Some err, w3) \<Rightarrow> (Some err, w3)
           | (None, w3) \<Rightarrow>
               (None,
                w3\<lparr>resultsLabel_text := SurgicalDepth (diff bone nerve) (fst (classify (diff bone nerve))),
                   resultsLabel_styleSheet :=
                     ''background-color: '' @ snd (classify (diff bone nerve)) @
                     ''; font-weight: bold; padding: 10px; border: 2px solid black;'',
                   steps := steps w3 @ [DifferenceComputed (diff bone nerve),
                                        RiskClassified (fst (classify (diff bone nerve)))]\<rparr>)))"
  using assms
  by (simp add: onApplyButton_def GetNumberOfControlPoints_def GetNthControlPointPosition_def
        Let_def split: prod.splits option.splits)

lemma onApplyButton_success:
  assumes "segmentationSelector w = Some segNode" "boneSelector w = Some boneNode"
    "nerveSelector w = Some nerveNode"
    "ControlPoints boneNode = bone # bs" "ControlPoints nerveNode = nerve # ns"
    "onApplyButton turn w = (None, w')"
  obtains w2 w3 where
    "createPlane turn ''Amber_Line_Plane'' bone (1, 0.6, 0)
       (w\<lparr>steps := steps w @ [PositionRead bone, PositionRead nerve]\<rparr>) = (None, w2)"
    "createPlane turn ''Red_Line_Plane'' nerve (1, 0, 0) w2 = (None, w3)"
    "w' = w3\<lparr>resultsLabel_text := SurgicalDepth (diff bone nerve) (fst (classify (diff bone nerve))),
             resultsLabel_styleSheet :=
               ''background-color: '' @ snd (classify (diff bone nerve)) @
               ''; font-weight: bold; padding: 10px; border: 2px solid black;'',
             steps := steps w3 @ [DifferenceComputed (diff bone nerve),
                                  RiskClassified (fst (classify (diff bone nerve)))]\<rparr>"
  using assms(6) unfolding onApplyButton_valid[OF assms(1-5)]
  by (auto split: prod.splits option.splits)

lemma example_run: "onApplyButton keep example_widget = (None, example_result)"
proof -
  let ?w1 = "example_widget\<lparr>steps := steps example_widget @ [PositionRead (1, 2, 10), PositionRead (4, 5, 7)]\<rparr>"
  have a: "createPlane keep ''Amber_Line_Plane'' (1, 2, 10) (1, 0.6, 0) ?w1 = 
     (None, ?w1\<lparr>mrmlScene := mrmlScene ?w1 @ [ModelNode ''Amber_Line_Plane'' (Some (rectangle (1, 2, 10)))
               (Some \<lparr>Color = (1, 0.6, 0), Opacity = 0.3, SliceIntersectionVisibility = True, LineWidth = 3\<rparr>)],
              steps := steps ?w1 @ [PlaneInstalled ''Amber_Line_Plane'']\<rparr>)" (is "_ = (None, ?w2)")
    by (rule createPlane_new) (simp add: example_widget_def)
  have b: "createPlane keep ''Red_Line_Plane'' (4, 5, 7) (1, 0, 0) ?w2 = 
     (None, ?w2\<lparr>mrmlScene := mrmlScene ?w2 @ [ModelNode ''Red_Line_Plane'' (Some (rectangle (4, 5, 7)))
               (Some \<lparr>Color = (1, 0, 0), Opacity = 0.3, SliceIntersectionVisibility = True, LineWidth = 3\<rparr>)],
              steps := steps ?w2 @ [PlaneInstalled ''Red_Line_Plane'']\<rparr>)"
    by (rule createPlane_new) (simp add: example_widget_def)
  have v: "segmentationSelector example_widget = Some (SegmentationNode ''Segmentation'')"
    "boneSelector example_widget = Some \<lparr>ControlPoints = [(1, 2, 10)]\<rparr>"
    "nerveSelector example_widget = Some \<lparr>ControlPoints = [(4, 5, 7), (0, 0, 0)]\<rparr>"
    "ControlPoints \<lparr>ControlPoints = [(1, 2, 10)]\<rparr> = (1, 2, 10) # []"
    "ControlPoints \<lparr>ControlPoints = [(4, 5, 7), (0, 0, 0)]\<rparr> = (4, 5, 7) # [(0, 0, 0)]"
    by (simp_all add: example_widget_def)
  show ?thesis
    apply (simp only: onApplyButton_valid[OF v])
    apply (simp only: a b prod.case option.case)
    apply (simp add: diff_def classify_def example_result_def example_widget_def)
    done
qed

lemma example_valid:
  "segmentationSelector example_widget = Some (SegmentationNode ''Segmentation'')"
  "boneSelector example_widget = Some \<lparr>ControlPoints = [(1, 2, 10)]\<rparr>"
  "nerveSelector example_widget = Some \<lparr>ControlPoints = [(4, 5, 7), (0, 0, 0)]\<rparr>"
  "ControlPoints \<lparr>ControlPoints = [(1, 2, 10)]\<rparr> = (1, 2, 10) # []"
  "ControlPoints \<lparr>ControlPoints = [(4, 5, 7), (0, 0, 0)]\<rparr> = (4, 5, 7) # [(0, 0, 0)]"
  by (simp_all add: example_widget_def)

subsection \<open>The names in the scene\<close>








subsection \<open>The outcome of a run\<close>


lemma plane_error_frame:
  "name' \<noteq> name \<Longrightarrow>
   plane_error (mrmlScene (snd (createPlane turn name center color w))) name' =
   plane_error (mrmlScene w) name'"
  by (simp add: plane_error_def createPlane_frame)

lemma onApplyButton_outcome:
  assumes "segmentationSelector w = Some segNode" "boneSelector w = Some boneNode"
    "nerveSelector w = Some nerveNode"
    "ControlPoints boneNode = bone # bs" "ControlPoints nerveNode = nerve # ns"
  shows "fst (onApplyButton turn w) =
           (case plane_error (mrmlScene w) ''Amber_Line_Plane'' of
              Some err \<Rightarrow> Some err
            | None \<Rightarrow> plane_error (mrmlScene w) ''Red_Line_Plane'')"
    and "resultsLabel_text (snd (onApplyButton turn w)) =
           (if fst (onApplyButton turn w) = None
            then SurgicalDepth (diff bone nerve) (risk_class (diff bone nerve))
            else resultsLabel_text w)"
    and "resultsLabel_styleSheet (snd (onApplyButton turn w)) =
           (if fst (onApplyButton turn w) = None
            then ''background-color: '' @ snd (classify (diff bone nerve)) @
                 ''; font-weight: bold; padding: 10px; border: 2px solid black;''
            else resultsLabel_styleSheet w)"
proof -
  let ?w1 = "w\<lparr>steps := steps w @ [PositionRead bone, PositionRead nerve]\<rparr>"
  let ?r1 = "createPlane turn ''Amber_Line_Plane'' bone (1, 0.6, 0) ?w1"
  let ?r2 = "createPlane turn ''Red_Line_Plane'' nerve (1, 0, 0) (snd ?r1)"
  have e1: "fst ?r1 = plane_error (mrmlScene w) ''Amber_Line_Plane''"
    by (simp add: createPlane_error)
  have e2: "fst ?r2 = plane_error (mrmlScene w) ''Red_Line_Plane''"
    using plane_error_frame[of "''Red_Line_Plane''" "''Amber_Line_Plane''" turn bone "(1, 0.6, 0)" ?w1]
    by (simp add: createPlane_error)
  have l1: "resultsLabel_text (snd ?r1) = resultsLabel_text w"
    "resultsLabel_styleSheet (snd ?r1) = resultsLabel_styleSheet w"
    using createPlane_widget[of turn "''Amber_Line_Plane''" bone "(1, 0.6, 0)" ?w1] by simp_all
  have l2: "resultsLabel_text (snd ?r2) = resultsLabel_text w"
    "resultsLabel_styleSheet (snd ?r2) = resultsLabel_styleSheet w"
    using createPlane_widget[of turn "''Red_Line_Plane''" nerve "(1, 0, 0)" "snd ?r1"] l1 by simp_all
  obtain x1 w2 where r1: "?r1 = (x1, w2)" by (cases ?r1)
  obtain x2 w3 where r2: "createPlane turn ''Red_Line_Plane'' nerve (1, 0, 0) w2 = (x2, w3)"
    by (cases "createPlane turn ''Red_Line_Plane'' nerve (1, 0, 0) w2")
  from r1 e1 have x1: "x1 = plane_error (mrmlScene w) ''Amber_Line_Plane''" by simp
  from r1 r2 e2 have x2: "x2 = plane_error (mrmlScene w) ''Red_Line_Plane''" by simp
  from r1 l1 have lw2: "resultsLabel_text w2 = resultsLabel_text w"
    "resultsLabel_styleSheet w2 = resultsLabel_styleSheet w" by simp_all
  from r1 r2 l2 have lw3: "resultsLabel_text w3 = resultsLabel_text w"
    "resultsLabel_styleSheet w3 = resultsLabel_styleSheet w" by simp_all
  have run: "onApplyButton turn w =
     (case x1 of Some err \<Rightarrow> (Some err, w2)
      | None \<Rightarrow> (case x2 of Some err \<Rightarrow> (Some err, w3)
          | None \<Rightarrow> (None,
                w3\<lparr>resultsLabel_text := SurgicalDepth (diff bone nerve) (fst (classify (diff bone nerve))),
                   resultsLabel_styleSheet :=
                     ''background-color: '' @ snd (classify (diff bone nerve)) @
                     ''; font-weight: bold; padding: 10px; border: 2px solid black;'',
                   steps := steps w3 @ [DifferenceComputed (diff bone nerve),
                                        RiskClassified (fst (classify (diff bone nerve)))]\<rparr>)))"
    unfolding onApplyButton_valid[OF assms] r1
    by (cases x1; cases x2) (simp_all add: r2)
  show "fst (onApplyButton turn w) =
           (case plane_error (mrmlScene w) ''Amber_Line_Plane'' of
              Some err \<Rightarrow> Some err
            | None \<Rightarrow> plane_error (mrmlScene w) ''Red_Line_Plane'')"
    unfolding run x1[symmetric] x2[symmetric] by (cases x1; cases x2) simp_all
  show "resultsLabel_text (snd (onApplyButton turn w)) =
           (if fst (onApplyButton turn w) = None
            then SurgicalDepth (diff bone nerve) (risk_class (diff bone nerve))
            else resultsLabel_text w)"
    unfolding run by (cases x1; cases x2) (simp_all add: lw2 lw3 risk_class_def)
  show "resultsLabel_styleSheet (snd (onApplyButton turn w)) =
           (if fst (onApplyButton turn w) = None
            then ''background-color: '' @ snd (classify (diff bone nerve)) @
                 ''; font-weight: bold; padding: 10px; border: 2px solid black;''
            else resultsLabel_styleSheet w)"
    unfolding run by (cases x1; cases x2) (simp_all add: lw2 lw3)
qed

lemma diff_commute: "diff a b = diff b a"
  by (simp add: diff_def abs_minus_commute)

section \<open>Properties\<close>

text \<open>
  C1. Every z-difference gets exactly one tier: the high tier below 2, the moderate
  tier from 2 (included) up to 5 (excluded), the low tier from 5 on; the boundary
  values 2 and 5 are moderate and low; the three tier labels are pairwise different.
\<close>

theorem risk_tier_intervals:
  "(d < 2 \<longrightarrow> risk_class d = ''HIGH COMPLEXITY (Red)'') \<and>
   (2 \<le> d \<and> d < 5 \<longrightarrow> risk_class d = ''MODERATE COMPLEXITY (Amber)'') \<and>
   (5 \<le> d \<longrightarrow> risk_class d = ''LOW COMPLEXITY (White)'') \<and>
   risk_class 2 = ''MODERATE COMPLEXITY (Amber)'' \<and>
   risk_class 5 = ''LOW COMPLEXITY (White)'' \<and>
   distinct [''HIGH COMPLEXITY (Red)'', ''MODERATE COMPLEXITY (Amber)'', ''LOW COMPLEXITY (White)'']"
  by (simp add: risk_class_def classify_def)

theorem risk_tier_intervals_witness:
  "(1.5::real) < 2 \<and> risk_class 1.5 = ''HIGH COMPLEXITY (Red)'' \<and>
   (2::real) \<le> 3.25 \<and> (3.25::real) < 5 \<and> risk_class 3.25 = ''MODERATE COMPLEXITY (Amber)'' \<and>
   (5::real) \<le> 7 \<and> risk_class 7 = ''LOW COMPLEXITY (White)''"
  using risk_tier_intervals [of "1.5"] risk_tier_intervals [of "3.25"] risk_tier_intervals [of 7]
  by simp



text \<open>
  C3. When the segmentation, the bone node or the nerve node is not selected, the
  callback returns normally with the selection message and the error style in the
  label; everything else is as before: no step was taken and the scene is unchanged.
\<close>

theorem missing_selection_reports_error:
  assumes "segmentationSelector w = None \<or> boneSelector w = None \<or> nerveSelector w = None"
  shows "onApplyButton turn w =
           (None,
            w\<lparr>resultsLabel_text :=
                 Text ''Error: Please select Segmentation, Bone Point, and Nerve Point!'',
               resultsLabel_styleSheet :=
                 ''background-color: #ffcccc; color: red; font-weight: bold;''\<rparr>) \<and>
         mrmlScene (snd (onApplyButton turn w)) = mrmlScene w \<and>
         steps (snd (onApplyButton turn w)) = steps w"
  using assms by (auto simp add: onApplyButton_def split: option.splits)

theorem missing_selection_reports_error_witness:
  "boneSelector (example_widget\<lparr>boneSelector := None\<rparr>) = None \<and>
   onApplyButton keep (example_widget\<lparr>boneSelector := None\<rparr>) =
     (None,
      example_widget
        \<lparr>boneSelector := None,
         resultsLabel_text :=
           Text ''Error: Please select Segmentation, Bone Point, and Nerve Point!'',
         resultsLabel_styleSheet :=
           ''background-color: #ffcccc; color: red; font-weight: bold;''\<rparr>) \<and>
   mrmlScene (snd (onApplyButton keep (example_widget\<lparr>boneSelector := None\<rparr>))) =
     [OtherNode ''Segmentation'']"
  using missing_selection_reports_error [of "example_widget\<lparr>boneSelector := None\<rparr>" keep]
  by (simp add: example_widget_def)

text \<open>
  C4. When all three selections are there and a landmark node has no control point, the
  callback returns normally with the message to place points in the label; no step was
  taken and the scene is unchanged.
\<close>

theorem missing_points_reports_error:
  assumes "segmentationSelector w = Some segNode" "boneSelector w = Some boneNode"
    "nerveSelector w = Some nerveNode"
    "ControlPoints boneNode = [] \<or> ControlPoints nerveNode = []"
  shows "onApplyButton turn w =
           (None, w\<lparr>resultsLabel_text := Text ''Error: Place points on the image first!''\<rparr>) \<and>
         mrmlScene (snd (onApplyButton turn w)) = mrmlScene w \<and>
         steps (snd (onApplyButton turn w)) = steps w"
  using assms by (auto simp add: onApplyButton_def GetNumberOfControlPoints_def)

theorem missing_points_reports_error_witness:
  "ControlPoints \<lparr>ControlPoints = []\<rparr> = [] \<and>
   onApplyButton keep (example_widget\<lparr>nerveSelector := Some \<lparr>ControlPoints = []\<rparr>\<rparr>) =
     (None,
      example_widget
        \<lparr>nerveSelector := Some \<lparr>ControlPoints = []\<rparr>,
         resultsLabel_text := Text ''Error: Place points on the image first!''\<rparr>) \<and>
   mrmlScene (snd (onApplyButton keep (example_widget\<lparr>nerveSelector := Some \<lparr>ControlPoints = []\<rparr>\<rparr>))) =
     [OtherNode ''Segmentation'']"
  using missing_points_reports_error
    [of "example_widget\<lparr>nerveSelector := Some \<lparr>ControlPoints = []\<rparr>\<rparr>"
        "SegmentationNode ''Segmentation''" "\<lparr>ControlPoints = [(1, 2, 10)]\<rparr>"
        "\<lparr>ControlPoints = []\<rparr>" keep]
  by (simp add: example_widget_def)








text \<open>
  C8, as stated, fails: in the concrete run the planes are installed before the
  difference is computed and classified.
\<close>

theorem spec_step_order_counterexample:
  "onApplyButton keep example_widget = (None, example_result) \<and>
   \<not> spec_order (steps example_result)"
proof -
  have "\<not> all_before is_classified is_plane (steps example_result)"
    by (simp add: all_before_def example_result_def)
  then show ?thesis by (simp add: example_run spec_order_def)
qed

text \<open>
  C8, amended. On every run that reaches its end the steps are, in this order: the two
  positions are read, the two planes are created or updated, the absolute z-difference
  is computed, and it is classified.
\<close>

theorem steps_in_code_order:
  assumes "segmentationSelector w = Some segNode" "boneSelector w = Some boneNode"
    "nerveSelector w = Some nerveNode"
    "ControlPoints boneNode = bone # bs" "ControlPoints nerveNode = nerve # ns"
    "onApplyButton turn w = (None, w')"
  shows "steps w' = steps w @
           [PositionRead bone, PositionRead nerve,
            PlaneInstalled ''Amber_Line_Plane'', PlaneInstalled ''Red_Line_Plane'',
            DifferenceComputed (diff bone nerve), RiskClassified (risk_class (diff bone nerve))] \<and>
         code_order (drop (length (steps w)) (steps w'))"
proof -
  from assms obtain w2 w3 where
    a: "createPlane turn ''Amber_Line_Plane'' bone (1, 0.6, 0)
       (w\<lparr>steps := steps w @ [PositionRead bone, PositionRead nerve]\<rparr>) = (None, w2)" and
    r: "createPlane turn ''Red_Line_Plane'' nerve (1, 0, 0) w2 = (None, w3)" and
    w': "steps w' = steps w3 @ [DifferenceComputed (diff bone nerve),
                                RiskClassified (fst (classify (diff bone nerve)))]"
    by (rule onApplyButton_success) simp
  from createPlane_steps[OF a] have
    s2: "steps w2 = steps w @ [PositionRead bone, PositionRead nerve, PlaneInstalled ''Amber_Line_Plane'']"
    by simp
  from createPlane_steps[OF r] have s3: "steps w3 = steps w2 @ [PlaneInstalled ''Red_Line_Plane'']" .
  have eq: "steps w' = steps w @
           [PositionRead bone, PositionRead nerve,
            PlaneInstalled ''Amber_Line_Plane'', PlaneInstalled ''Red_Line_Plane'',
            DifferenceComputed (diff bone nerve), RiskClassified (risk_class (diff bone nerve))]"
    by (simp add: w' s3 s2 risk_class_def)
  have "code_order (drop (length (steps w)) (steps w'))"
    by (simp add: eq code_order_def all_before_def)
  with eq show ?thesis by simp
qed

theorem steps_in_code_order_witness:
  "onApplyButton keep example_widget = (None, example_result) \<and>
   steps example_result =
     [PositionRead (1, 2, 10), PositionRead (4, 5, 7),
      PlaneInstalled ''Amber_Line_Plane'', PlaneInstalled ''Red_Line_Plane'',
      DifferenceComputed (diff (1, 2, 10) (4, 5, 7)),
      RiskClassified (risk_class (diff (1, 2, 10) (4, 5, 7)))] \<and>
   code_order (steps example_result)"
proof -
  have e: "steps example_widget = []" by (simp add: example_widget_def)
  note t = steps_in_code_order [OF example_valid example_run]
  have a: "steps example_result =
     [PositionRead (1, 2, 10), PositionRead (4, 5, 7),
      PlaneInstalled ''Amber_Line_Plane'', PlaneInstalled ''Red_Line_Plane'',
      DifferenceComputed (diff (1, 2, 10) (4, 5, 7)),
      RiskClassified (risk_class (diff (1, 2, 10) (4, 5, 7)))]"
    using t [THEN conjunct1] by (simp only: e append_Nil)
  have b: "code_order (steps example_result)"
    using t [THEN conjunct2] by (simp only: e list.size drop_0)
  from a b example_run show ?thesis by (simp only: simp_thms)
qed

text \<open>
  C9. The distance and its tier do not depend on the order of the two points, and a run
  with the bone and nerve selections swapped ends the same way (normally or with the
  same exception) and shows the same text and style in the label.
\<close>

theorem distance_and_tier_symmetric:
  "diff bone nerve = diff nerve bone \<and>
   risk_class (diff bone nerve) = risk_class (diff nerve bone) \<and>
   fst (onApplyButton turn (w\<lparr>boneSelector := nerveSelector w, nerveSelector := boneSelector w\<rparr>)) =
     fst (onApplyButton turn w) \<and>
   resultsLabel_text
     (snd (onApplyButton turn (w\<lparr>boneSelector := nerveSelector w, nerveSelector := boneSelector w\<rparr>))) =
     resultsLabel_text (snd (onApplyButton turn w)) \<and>
   resultsLabel_styleSheet
     (snd (onApplyButton turn (w\<lparr>boneSelector := nerveSelector w, nerveSelector := boneSelector w\<rparr>))) =
     resultsLabel_styleSheet (snd (onApplyButton turn w))"
proof -
  let ?ws = "w\<lparr>boneSelector := nerveSelector w, nerveSelector := boneSelector w\<rparr>"
  have run: "fst (onApplyButton turn ?ws) = fst (onApplyButton turn w) \<and>
     resultsLabel_text (snd (onApplyButton turn ?ws)) = resultsLabel_text (snd (onApplyButton turn w)) \<and>
     resultsLabel_styleSheet (snd (onApplyButton turn ?ws)) =
       resultsLabel_styleSheet (snd (onApplyButton turn w))"
  proof (cases "segmentationSelector w = None \<or> boneSelector w = None \<or> nerveSelector w = None")
    case True
    then show ?thesis by (auto simp add: onApplyButton_def split: option.splits)
  next
    case False
    then obtain sg b n where sel: "segmentationSelector w = Some sg" "boneSelector w = Some b"
      "nerveSelector w = Some n" by auto
    then have sel': "segmentationSelector ?ws = Some sg" "boneSelector ?ws = Some n"
      "nerveSelector ?ws = Some b" by simp_all
    show ?thesis
    proof (cases "ControlPoints b = [] \<or> ControlPoints n = []")
      case True
      then show ?thesis using sel
        by (auto simp add: onApplyButton_def GetNumberOfControlPoints_def)
    next
      case False
      then obtain pb bs pn ns where pts: "ControlPoints b = pb # bs" "ControlPoints n = pn # ns"
        by (cases "ControlPoints b"; cases "ControlPoints n") auto
      note o = onApplyButton_outcome[OF sel pts, of turn]
      note o' = onApplyButton_outcome[OF sel' pts(2) pts(1), of turn]
      have f: "fst (onApplyButton turn ?ws) = fst (onApplyButton turn w)"
        by (simp add: o(1) o'(1) split: option.splits)
      show ?thesis
        by (simp add: f o(2,3) o'(2,3) diff_commute[of pn pb] split: option.splits)
    qed
  qed
  show ?thesis using run by (simp add: diff_commute[of bone nerve])
qed

theorem distance_and_tier_symmetric_witness:
  "diff (1, 2, 10) (4, 5, 7) = diff (4, 5, 7) (1, 2, 10) \<and>
   risk_class (diff (1, 2, 10) (4, 5, 7)) = risk_class (diff (4, 5, 7) (1, 2, 10)) \<and>
   resultsLabel_text
     (snd (onApplyButton keep
        (example_widget\<lparr>boneSelector := nerveSelector example_widget,
                          nerveSelector := boneSelector example_widget\<rparr>))) =
     SurgicalDepth 3 ''MODERATE COMPLEXITY (Amber)''"
  using distance_and_tier_symmetric [of "(1, 2, 10)" "(4, 5, 7)" keep example_widget] example_run
  by (simp add: example_result_def)

text \<open>
  C10. A missing selection sets the label's text and the red error style; missing
  points set only the label's text and leave the style as it was.
\<close>

theorem validation_failures_differ:
  "(segmentationSelector w = None \<or> boneSelector w = None \<or> nerveSelector w = None \<longrightarrow>
      resultsLabel_text (snd (onApplyButton turn w)) =
        Text ''Error: Please select Segmentation, Bone Point, and Nerve Point!'' \<and>
      resultsLabel_styleSheet (snd (onApplyButton turn w)) =
        ''background-color: #ffcccc; color: red; font-weight: bold;'') \<and>
   (segmentationSelector w = Some segNode \<and> boneSelector w = Some boneNode \<and>
    nerveSelector w = Some nerveNode \<and>
    (ControlPoints boneNode = [] \<or> ControlPoints nerveNode = []) \<longrightarrow>
      resultsLabel_text (snd (onApplyButton turn w)) =
        Text ''Error: Place points on the image first!'' \<and>
      resultsLabel_styleSheet (snd (onApplyButton turn w)) = resultsLabel_styleSheet w)"
  by (auto simp add: onApplyButton_def GetNumberOfControlPoints_def split: option.splits)

theorem validation_failures_differ_witness:
  "boneSelector (example_result\<lparr>boneSelector := None\<rparr>) = None \<and>
   resultsLabel_styleSheet (snd (onApplyButton keep (example_result\<lparr>boneSelector := None\<rparr>))) =
     ''background-color: #ffcccc; color: red; font-weight: bold;'' \<and>
   ControlPoints \<lparr>ControlPoints = []\<rparr> = [] \<and>
   resultsLabel_text
     (snd (onApplyButton keep (example_result\<lparr>boneSelector := Some \<lparr>ControlPoints = []\<rparr>\<rparr>))) =
     Text ''Error: Place points on the image first!'' \<and>
   resultsLabel_styleSheet
     (snd (onApplyButton keep (example_result\<lparr>boneSelector := Some \<lparr>ControlPoints = []\<rparr>\<rparr>))) =
     ''background-color: #fff4cc; font-weight: bold; padding: 10px; border: 2px solid black;''"
  using validation_failures_differ
          [of "example_result\<lparr>boneSelector := None\<rparr>" keep]
        validation_failures_differ
          [of "example_result\<lparr>boneSelector := Some \<lparr>ControlPoints = []\<rparr>\<rparr>" keep
              "SegmentationNode ''Segmentation''" "\<lparr>ControlPoints = []\<rparr>"
              "\<lparr>ControlPoints = [(4, 5, 7), (0, 0, 0)]\<rparr>"]
  by (simp add: example_result_def example_widget_def)

end
